theory Spec2Isabelle
  imports Main "HOL-Library.AList" "HOL-Library.Sublist"
begin

section \<open>Exceptions\<close>

text \<open>
  The Python exceptions the handler can meet, as values. \<open>OSError\<close> carries the errno
  name of an error that has no subclass of its own; \<open>ShutilError\<close> is \<open>shutil.Error\<close>.
  \<open>NotModelled\<close> marks a replacement field of \<open>str.format\<close> (conversion, format
  specification, attribute or index access) whose rendering is left out of the model.
\<close>

datatype error =
    FileNotFoundError
  | FileExistsError
  | IsADirectoryError
  | NotADirectoryError
  | SameFileError
  | ShutilError
  | OSError string
  | KeyError string
  | IndexError
  | ValueError
  | AttributeError
  | NotModelled

text \<open>\<open>except OSError\<close>: the subclasses of \<open>OSError\<close> in Python 3.\<close>

fun is_OSError :: "error \<Rightarrow> bool" where
  "is_OSError FileNotFoundError = True"
| "is_OSError FileExistsError = True"
| "is_OSError IsADirectoryError = True"
| "is_OSError NotADirectoryError = True"
| "is_OSError SameFileError = True"
| "is_OSError ShutilError = True"
| "is_OSError (OSError _) = True"
| "is_OSError _ = False"

section \<open>Paths (\<open>os.path\<close>, \<open>pathlib\<close>)\<close>

text \<open>
  An absolute path is the list of its components, \<open>/mnt/ssd/a.txt\<close> being
  \<open>[''mnt'', ''ssd'', ''a.txt'']\<close> and \<open>/\<close> the empty list. Relative paths and file
  names (what \<open>os.path.relpath\<close> returns, the configured trash directory, the name a
  template expands to) stay strings, as in the source.
\<close>

type_synonym bytes = string
type_synonym path = "string list"

fun split_on :: "char \<Rightarrow> string \<Rightarrow> string list" where
  "split_on c [] = [[]]"
| "split_on c (x # xs) =
     (if x = c then [] # split_on c xs
      else (case split_on c xs of [] \<Rightarrow> [[x]] | w # ws \<Rightarrow> (x # w) # ws))"

fun join_on :: "char \<Rightarrow> string list \<Rightarrow> string" where
  "join_on c [] = []"
| "join_on c [s] = s"
| "join_on c (s # t # ss) = s @ c # join_on c (t # ss)"

definition split_path :: "string \<Rightarrow> string list" where
  "split_path s = split_on CHR ''/'' s"

text \<open>\<open>str.startswith\<close>.\<close>

definition startswith :: "string \<Rightarrow> string \<Rightarrow> bool" where
  "startswith s pre = prefix pre s"

text \<open>
  \<open>os.path.normpath\<close> on components: empty and \<open>.\<close> components vanish, \<open>..\<close>
  removes the component before it and stays at the root.
\<close>

fun norm_step :: "path \<Rightarrow> string \<Rightarrow> path" where
  "norm_step acc s =
     (if s = [] \<or> s = ''.'' then acc else if s = ''..'' then tl acc else s # acc)"

definition normpath :: "path \<Rightarrow> path" where
  "normpath p = rev (foldl norm_step [] p)"

definition dirname :: "path \<Rightarrow> path" where
  "dirname p = butlast p"

definition basename :: "path \<Rightarrow> string" where
  "basename p = (if p = [] then [] else last p)"

text \<open>
  \<open>os.path.join(a, s)\<close> for a string \<open>s\<close>: an absolute \<open>s\<close> replaces \<open>a\<close>.
\<close>

definition os_path_join :: "path \<Rightarrow> string \<Rightarrow> path" where
  "os_path_join a s = (if startswith s ''/'' then tl (split_path s) else a @ split_path s)"

text \<open>
  \<open>os.path.splitext\<close> on a name: the extension starts at the last dot, unless only
  dots come before it.
\<close>

definition splitext_name :: "string \<Rightarrow> string \<times> string" where
  "splitext_name s =
     (if CHR ''.'' \<in> set s then
        (let dotIndex = length s - length (takeWhile (\<lambda>c. c \<noteq> CHR ''.'') (rev s)) - 1
         in if list_ex (\<lambda>c. c \<noteq> CHR ''.'') (take dotIndex s)
            then (take dotIndex s, drop dotIndex s)
            else (s, []))
      else (s, []))"

definition splitext :: "path \<Rightarrow> path \<times> string" where
  "splitext p =
     (if p = [] then ([], [])
      else (let (stem, ext) = splitext_name (last p) in (butlast p @ [stem], ext)))"

text \<open>
  \<open>os.path.relpath(path, start)\<close>: both made absolute and normal, the common prefix
  of their components dropped, one \<open>..\<close> for each remaining component of \<open>start\<close>.
\<close>

definition relpath :: "path \<Rightarrow> path \<Rightarrow> string" where
  "relpath p start =
     (let start_list = normpath start;
          path_list = normpath p;
          i = length (longest_common_prefix start_list path_list);
          rel_list = replicate (length start_list - i) ''..'' @ drop i path_list
      in if rel_list = [] then ''.'' else join_on CHR ''/'' rel_list)"

text \<open>\<open>Path(s).parts\<close> of a relative path: pathlib drops empty and \<open>.\<close> components.\<close>

definition path_parts :: "string \<Rightarrow> string list" where
  "path_parts s = filter (\<lambda>x. x \<noteq> [] \<and> x \<noteq> ''.'') (split_path s)"

text \<open>
  The string of a path as it stands (what an f-string prints), and the string of
  \<open>os.path.abspath\<close> of it.
\<close>

definition path_str :: "path \<Rightarrow> string" where
  "path_str p = (if p = [] then ''/'' else concat (map (\<lambda>s. CHR ''/'' # s) p))"

definition abspath_str :: "path \<Rightarrow> string" where
  "abspath_str p = (if normpath p = [] then ''/'' else concat (map (\<lambda>s. CHR ''/'' # s) (normpath p)))"

section \<open>Timestamps (\<open>datetime.now().strftime\<close>)\<close>

record datetime =
  year :: nat
  month :: nat
  day :: nat
  hour :: nat
  minute :: nat
  second :: nat


fun digits :: "nat \<Rightarrow> string" where
  "digits n = (if n < 10 then [''0123456789'' ! n] else digits (n div 10) @ [''0123456789'' ! (n mod 10)])"

declare digits.simps [simp del]

definition zpad :: "nat \<Rightarrow> nat \<Rightarrow> string" where
  "zpad w n = replicate (w - length (digits n)) CHR ''0'' @ digits n"

text \<open>\<open>strftime('%Y%m%d_%H%M%S')\<close>.\<close>

definition strftime :: "datetime \<Rightarrow> string" where
  "strftime t =
     zpad 4 (year t) @ zpad 2 (month t) @ zpad 2 (day t) @ ''_'' @
     zpad 2 (hour t) @ zpad 2 (minute t) @ zpad 2 (second t)"

section \<open>\<open>str.format\<close> with keyword arguments\<close>

text \<open>
  Literal text is copied, \<open>{{\<close> and \<open>}}\<close> are the escaped braces, \<open>{name}\<close> is replaced
  by the keyword argument of that name. An unknown name raises \<open>KeyError\<close>, an empty
  or numeric field \<open>IndexError\<close> (there are no positional arguments), an unmatched
  brace \<open>ValueError\<close>.
\<close>

definition emit :: "string \<Rightarrow> error + string \<Rightarrow> error + string" where
  "emit v r = (case r of Inl e \<Rightarrow> Inl e | Inr s \<Rightarrow> Inr (v @ s))"

definition lookup_field :: "(string \<rightharpoonup> string) \<Rightarrow> string \<Rightarrow> error + string" where
  "lookup_field kw f =
     (if list_ex (\<lambda>c. c \<in> set ''!:.['') f then Inl NotModelled
      else if list_all (\<lambda>c. c \<in> set ''0123456789'') f then Inl IndexError
      else (case kw f of None \<Rightarrow> Inl (KeyError f) | Some v \<Rightarrow> Inr v))"

fun format_from :: "(string \<rightharpoonup> string) \<Rightarrow> string option \<Rightarrow> string \<Rightarrow> error + string" where
  "format_from kw None [] = Inr []"
| "format_from kw (Some f) [] = Inl ValueError"
| "format_from kw None (c # cs) =
     (if c = CHR ''{'' then
        (case cs of
           [] \<Rightarrow> Inl ValueError
         | d # ds \<Rightarrow>
             if d = CHR ''{'' then emit ''{'' (format_from kw None ds)
             else format_from kw (Some []) cs)
      else if c = CHR ''}'' then
        (case cs of
           [] \<Rightarrow> Inl ValueError
         | d # ds \<Rightarrow>
             if d = CHR ''}'' then emit ''}'' (format_from kw None ds)
             else Inl ValueError)
      else emit [c] (format_from kw None cs))"
| "format_from kw (Some f) (c # cs) =
     (if c = CHR ''}'' then
        (case lookup_field kw f of
           Inl e \<Rightarrow> Inl e
         | Inr v \<Rightarrow> emit v (format_from kw None cs))
      else if c = CHR ''{'' then Inl ValueError
      else format_from kw (Some (f @ [c])) cs)"

definition str_format :: "string \<Rightarrow> (string \<rightharpoonup> string) \<Rightarrow> error + string" where
  "str_format template kw = format_from kw None template"

section \<open>The file system\<close>

text \<open>
  The destination and source trees live in one file system: an association list from
  normalised absolute paths to nodes. A regular file has its bytes and its modification
  time, the \<open>st_mtime_ns\<close> of \<open>os.stat\<close>: whole nanoseconds since the epoch, which
  \<open>shutil.copy2\<close> carries over as they are. The root directory always exists. Every
  operation below normalises the paths it is given, as the operating system resolves them.
\<close>

datatype node = File (content: bytes) (mtime_ns: int) | Dir

type_synonym filesystem = "(path \<times> node) list"

definition lookup :: "filesystem \<Rightarrow> path \<Rightarrow> node option" where
  "lookup fs k = (if k = [] then Some Dir else map_of fs k)"

definition stat :: "filesystem \<Rightarrow> path \<Rightarrow> node option" where
  "stat fs p = lookup fs (normpath p)"

definition os_path_exists :: "filesystem \<Rightarrow> path \<Rightarrow> bool" where
  "os_path_exists fs p = (stat fs p \<noteq> None)"

definition os_path_isdir :: "filesystem \<Rightarrow> path \<Rightarrow> bool" where
  "os_path_isdir fs p = (stat fs p = Some Dir)"

text \<open>The names in a directory (\<open>os.listdir\<close>, \<open>os.scandir\<close>), by key.\<close>

definition children :: "filesystem \<Rightarrow> path \<Rightarrow> (string \<times> node) list" where
  "children fs k = map (\<lambda>(p, n). (last p, n)) (filter (\<lambda>(p, n). p \<noteq> [] \<and> butlast p = k) fs)"

definition os_listdir :: "filesystem \<Rightarrow> path \<Rightarrow> error + string list" where
  "os_listdir fs p =
     (case stat fs p of
        None \<Rightarrow> Inl FileNotFoundError
      | Some (File c m) \<Rightarrow> Inl NotADirectoryError
      | Some Dir \<Rightarrow> Inr (map fst (children fs (normpath p))))"

text \<open>
  What opening a missing entry below \<open>k\<close>'s parent for writing, or creating it, needs:
  the parent must be a directory.
\<close>

definition parent_error :: "filesystem \<Rightarrow> path \<Rightarrow> error option" where
  "parent_error fs k =
     (case lookup fs (butlast k) of
        None \<Rightarrow> Some FileNotFoundError
      | Some (File c m) \<Rightarrow> Some NotADirectoryError
      | Some Dir \<Rightarrow> None)"

definition mkdir :: "filesystem \<Rightarrow> path \<Rightarrow> error + filesystem" where
  "mkdir fs p =
     (let k = normpath p in
      case lookup fs k of
        Some n \<Rightarrow> Inl FileExistsError
      | None \<Rightarrow>
          (case parent_error fs k of
             Some e \<Rightarrow> Inl e
           | None \<Rightarrow> Inr (AList.update k Dir fs)))"

text \<open>
  \<open>os.makedirs(name, exist_ok=True)\<close>: the parent is made first when it is missing (a
  \<open>FileExistsError\<close> from that call is passed over), then \<open>mkdir(name)\<close>, whose error
  is dropped when \<open>name\<close> is a directory.
\<close>

function makedirs_key :: "filesystem \<Rightarrow> path \<Rightarrow> error + filesystem" where
  "makedirs_key fs name =
     (case (if name \<noteq> [] \<and> lookup fs (butlast name) = None
            then (case makedirs_key fs (butlast name) of
                    Inl e \<Rightarrow> if e = FileExistsError then Inr fs else Inl e
                  | Inr fs1 \<Rightarrow> Inr fs1)
            else Inr fs) of
        Inl e \<Rightarrow> Inl e
      | Inr fs1 \<Rightarrow>
          (case mkdir fs1 name of
             Inr fs2 \<Rightarrow> Inr fs2
           | Inl e \<Rightarrow> if lookup fs1 name = Some Dir then Inr fs1 else Inl e))"
  by pat_completeness auto
termination
  by (relation "measure (\<lambda>(fs, name). length name)") auto

declare makedirs_key.simps [simp del]

definition makedirs :: "filesystem \<Rightarrow> path \<Rightarrow> error + filesystem" where
  "makedirs fs p = makedirs_key fs (normpath p)"

text \<open>
  \<open>shutil.copy2(src, dst)\<close>: into \<open>dst\<close> when it is a directory; \<open>SameFileError\<close> when
  both name the same existing file; then the source is opened for reading and the target
  for writing, and the target gets the source's bytes and its modification time.
\<close>

definition copy2 :: "filesystem \<Rightarrow> path \<Rightarrow> path \<Rightarrow> error + filesystem" where
  "copy2 fs src dst =
     (let s = normpath src;
          d = (if os_path_isdir fs dst then normpath (os_path_join dst (basename src))
               else normpath dst)
      in if s = d \<and> lookup fs s \<noteq> None then Inl SameFileError
         else (case lookup fs s of
                 None \<Rightarrow> Inl FileNotFoundError
               | Some Dir \<Rightarrow> Inl IsADirectoryError
               | Some (File c m) \<Rightarrow>
                   (case lookup fs d of
                      Some Dir \<Rightarrow> Inl IsADirectoryError
                    | Some (File c' m') \<Rightarrow> Inr (AList.update d (File c m) fs)
                    | None \<Rightarrow>
                        (case parent_error fs d of
                           Some e \<Rightarrow> Inl e
                         | None \<Rightarrow> Inr (AList.update d (File c m) fs)))))"

text \<open>\<open>os.remove\<close> (\<open>unlink\<close>) and \<open>os.rmdir\<close>.\<close>

definition unlink :: "filesystem \<Rightarrow> path \<Rightarrow> error + filesystem" where
  "unlink fs p =
     (let k = normpath p in
      case lookup fs k of
        None \<Rightarrow> Inl FileNotFoundError
      | Some Dir \<Rightarrow> Inl IsADirectoryError
      | Some (File c m) \<Rightarrow> Inr (AList.delete k fs))"

definition rmdir :: "filesystem \<Rightarrow> path \<Rightarrow> error + filesystem" where
  "rmdir fs p =
     (let k = normpath p in
      if k = [] then Inl (OSError ''EBUSY'')
      else (case lookup fs k of
              None \<Rightarrow> Inl FileNotFoundError
            | Some (File c m) \<Rightarrow> Inl NotADirectoryError
            | Some Dir \<Rightarrow>
                if children fs k = [] then Inr (AList.delete k fs)
                else Inl (OSError ''ENOTEMPTY'')))"

text \<open>
  \<open>os.rename(s, d)\<close> on keys. A file replaces a file; a directory moves with all that
  is below it, onto nothing or onto an empty directory, and never into itself.
\<close>

definition rekey :: "path \<Rightarrow> path \<Rightarrow> filesystem \<Rightarrow> filesystem" where
  "rekey s d fs = map (\<lambda>(p, n). if prefix s p then (d @ drop (length s) p, n) else (p, n)) fs"

definition rename :: "filesystem \<Rightarrow> path \<Rightarrow> path \<Rightarrow> error + filesystem" where
  "rename fs s d =
     (case lookup fs s of
        None \<Rightarrow> Inl FileNotFoundError
      | Some (File c m) \<Rightarrow>
          (case lookup fs d of
             Some Dir \<Rightarrow> Inl IsADirectoryError
           | Some (File c' m') \<Rightarrow> if s = d then Inr fs else Inr (AList.update d (File c m) (AList.delete s fs))
           | None \<Rightarrow>
               (case parent_error fs d of
                  Some e \<Rightarrow> Inl e
                | None \<Rightarrow> Inr (AList.update d (File c m) (AList.delete s fs))))
      | Some Dir \<Rightarrow>
          if s = [] then Inl (OSError ''EBUSY'')
          else if s = d then Inr fs
          else if prefix s d then Inl (OSError ''EINVAL'')
          else (case lookup fs d of
                  Some (File c' m') \<Rightarrow> Inl NotADirectoryError
                | Some Dir \<Rightarrow>
                    if d = [] \<or> children fs d \<noteq> [] then Inl (OSError ''ENOTEMPTY'')
                    else Inr (rekey s d (AList.delete d fs))
                | None \<Rightarrow>
                    (case parent_error fs d of
                       Some e \<Rightarrow> Inl e
                     | None \<Rightarrow> Inr (rekey s d fs))))"

text \<open>
  \<open>shutil.move(src, dst)\<close>: into \<open>dst\<close> when it is a directory (an error when the name
  is taken there), by \<open>os.rename\<close>; when the rename fails a regular file is copied with
  \<open>copy2\<close> and unlinked, and a directory moved into itself is \<open>shutil.Error\<close>. The
  \<open>copytree\<close> fallback for any other directory whose rename fails is left out.
\<close>

definition move_to :: "filesystem \<Rightarrow> path \<Rightarrow> path \<Rightarrow> error + filesystem" where
  "move_to fs src real_dst =
     (case rename fs (normpath src) (normpath real_dst) of
        Inr fs1 \<Rightarrow> Inr fs1
      | Inl e \<Rightarrow>
          if os_path_isdir fs src then
            (if prefix (normpath src) (normpath real_dst) then Inl ShutilError else Inl NotModelled)
          else (case copy2 fs src real_dst of
                  Inl e' \<Rightarrow> Inl e'
                | Inr fs1 \<Rightarrow> unlink fs1 src))"

definition move :: "filesystem \<Rightarrow> path \<Rightarrow> path \<Rightarrow> error + filesystem" where
  "move fs src dst =
     (if os_path_isdir fs dst then
        (if normpath src = normpath dst then rename fs (normpath src) (normpath dst)
         else (let real_dst = os_path_join dst (basename src)
               in if os_path_exists fs real_dst then Inl ShutilError
                  else move_to fs src real_dst))
      else move_to fs src dst)"

text \<open>Reading a file (\<open>open(path, 'rb')\<close>).\<close>

definition read_file :: "filesystem \<Rightarrow> path \<Rightarrow> error + bytes" where
  "read_file fs p =
     (case stat fs p of
        None \<Rightarrow> Inl FileNotFoundError
      | Some Dir \<Rightarrow> Inl IsADirectoryError
      | Some (File c m) \<Rightarrow> Inr c)"

text \<open>
  \<open>os.walk(top)\<close>, top down. The caller's loop body may prune the directory names in
  place before the walk descends; the source prunes the names that start with a dot when
  \<open>skip\<close> holds. A \<open>top\<close> that is no directory yields nothing.
\<close>

definition walk_dirs :: "bool \<Rightarrow> (string \<times> node) list \<Rightarrow> string list" where
  "walk_dirs skip entries =
     (let dirs = map fst (filter (\<lambda>(name, n). n = Dir) entries)
      in if skip then filter (\<lambda>d. \<not> startswith d ''.'') dirs else dirs)"

definition walk_files :: "(string \<times> node) list \<Rightarrow> string list" where
  "walk_files entries = map fst (filter (\<lambda>(name, n). n \<noteq> Dir) entries)"

definition below :: "path \<Rightarrow> filesystem \<Rightarrow> nat" where
  "below k fs = length (filter (\<lambda>(p, n). strict_prefix k p) fs)"

lemma length_filter_less:
  assumes "x \<in> set xs" and "Q x" and "\<not> P x" and "\<And>y. P y \<Longrightarrow> Q y"
  shows "length (filter P xs) < length (filter Q xs)"
  using assms(1)
proof (induction xs)
  case Nil
  then show ?case by simp
next
  case (Cons a xs)
  have le: "length (filter P xs) \<le> length (filter Q xs)"
    by (induction xs) (auto dest: assms(4))
  show ?case
  proof (cases "a = x")
    case True
    with le assms(2,3) show ?thesis by simp
  next
    case False
    with Cons have "length (filter P xs) < length (filter Q xs)" by simp
    then show ?thesis by (auto dest: assms(4))
  qed
qed

lemma child_key:
  assumes "d \<in> set (map fst (children fs topdir))"
  shows "\<exists>n. (topdir @ [d], n) \<in> set fs"
proof -
  from assms obtain p n where pn: "(p, n) \<in> set fs" "p \<noteq> []" "butlast p = topdir" "last p = d"
    by (auto simp: children_def)
  from pn(2,3,4) have "p = topdir @ [d]"
    using append_butlast_last_id by fastforce
  with pn(1) show ?thesis by blast
qed

lemma below_child:
  assumes "d \<in> set (map fst (children fs topdir))"
  shows "below (topdir @ [d]) fs < below topdir fs"
proof -
  from child_key [OF assms] obtain n where n: "(topdir @ [d], n) \<in> set fs" by blast
  show ?thesis
    unfolding below_def
  proof (rule length_filter_less [OF n])
    show "case (topdir @ [d], n) of (p, n) \<Rightarrow> strict_prefix topdir p"
      by (simp add: strict_prefix_def)
    show "\<not> (case (topdir @ [d], n) of (p, n) \<Rightarrow> strict_prefix (topdir @ [d]) p)" by simp
    fix y :: "path \<times> node"
    assume "case y of (p, n) \<Rightarrow> strict_prefix (topdir @ [d]) p"
    then show "case y of (p, n) \<Rightarrow> strict_prefix topdir p"
      by (cases y) (auto simp: strict_prefix_def prefix_def)
  qed
qed

lemma walk_dirs_subset: "set (walk_dirs skip entries) \<subseteq> set (map fst entries)"
  by (auto simp: walk_dirs_def Let_def)

function os_walk_key :: "bool \<Rightarrow> filesystem \<Rightarrow> path \<Rightarrow> (path \<times> string list \<times> string list) list" where
  "os_walk_key skip fs topdir =
     (if lookup fs topdir = Some Dir then
        (let entries = children fs topdir;
             dirs = walk_dirs skip entries
         in (topdir, dirs, walk_files entries) # concat (map (\<lambda>d. os_walk_key skip fs (topdir @ [d])) dirs))
      else [])"
  by pat_completeness auto
termination
proof (relation "measure (\<lambda>(skip, fs, topdir). below topdir fs)")
  show "wf (measure (\<lambda>(skip, fs, topdir). below topdir fs))" by simp
next
  fix skip :: bool and fs :: filesystem and topdir :: path and x xa d
  assume "x = children fs topdir" and "xa = walk_dirs skip x" and "d \<in> set xa"
  then have "d \<in> set (map fst (children fs topdir))"
    using walk_dirs_subset by blast
  then show "((skip, fs, topdir @ [d]), (skip, fs, topdir)) \<in> measure (\<lambda>(skip, fs, topdir). below topdir fs)"
    by (simp add: below_child)
qed

declare os_walk_key.simps [simp del]

definition os_walk :: "bool \<Rightarrow> filesystem \<Rightarrow> path \<Rightarrow> (path \<times> string list \<times> string list) list" where
  "os_walk skip fs topdir = os_walk_key skip fs (normpath topdir)"

section \<open>The world: file system, clock and log\<close>

text \<open>
  \<open>effects\<close> is the trace of the mutating calls that went through: it tells a call
  that wrote (even bytes equal to those already there) from one that did not.
\<close>

datatype level = INFO | ERROR

datatype fs_op =
    MakeDirs path
  | CopyFile path path
  | MoveFile path path
  | RemoveFile path
  | RemoveDir path

record world =
  disk :: filesystem
  effects :: "fs_op list"
  logs :: "(level \<times> string) list"
  clock :: datetime

text \<open>
  What the model takes from the platform without computing it: the MD5 digest of a byte
  string (\<open>hashlib\<close>), shell-style matching of a name against a pattern (\<open>fnmatch.fnmatch\<close>),
  the modification times of directories in nanoseconds, which the file system above does
  not track, and the text \<open>str(e)\<close> of an exception.
\<close>

record platform =
  md5 :: "bytes \<Rightarrow> string"
  fnmatch :: "string \<Rightarrow> string \<Rightarrow> bool"
  dir_mtime :: "path \<Rightarrow> int"
  exception_text :: "error \<Rightarrow> string"

text \<open>
  A call of the handler ends with a value or an exception, in a new world. \<open>and_then\<close>
  runs the next statement unless an exception is on its way.
\<close>

type_synonym 'a outcome = "(error + 'a) \<times> world"

definition and_then :: "'a outcome \<Rightarrow> ('a \<Rightarrow> world \<Rightarrow> 'b outcome) \<Rightarrow> 'b outcome" where
  "and_then r f = (case r of (Inl e, w) \<Rightarrow> (Inl e, w) | (Inr x, w) \<Rightarrow> f x w)"

definition logging_info :: "string \<Rightarrow> world \<Rightarrow> world" where
  "logging_info msg w = w\<lparr>logs := logs w @ [(INFO, msg)]\<rparr>"

definition logging_error :: "string \<Rightarrow> world \<Rightarrow> world" where
  "logging_error msg w = w\<lparr>logs := logs w @ [(ERROR, msg)]\<rparr>"

definition os_makedirs :: "path \<Rightarrow> world \<Rightarrow> unit outcome" where
  "os_makedirs p w =
     (case makedirs (disk w) p of
        Inl e \<Rightarrow> (Inl e, w)
      | Inr fs' \<Rightarrow>
          (Inr (), if fs' = disk w then w
                   else w\<lparr>disk := fs', effects := effects w @ [MakeDirs (normpath p)]\<rparr>))"

definition shutil_copy2 :: "path \<Rightarrow> path \<Rightarrow> world \<Rightarrow> unit outcome" where
  "shutil_copy2 src dst w =
     (case copy2 (disk w) src dst of
        Inl e \<Rightarrow> (Inl e, w)
      | Inr fs' \<Rightarrow> (Inr (), w\<lparr>disk := fs', effects := effects w @ [CopyFile (normpath src) (normpath dst)]\<rparr>))"

definition shutil_move :: "path \<Rightarrow> path \<Rightarrow> world \<Rightarrow> unit outcome" where
  "shutil_move src dst w =
     (case move (disk w) src dst of
        Inl e \<Rightarrow> (Inl e, w)
      | Inr fs' \<Rightarrow> (Inr (), w\<lparr>disk := fs', effects := effects w @ [MoveFile (normpath src) (normpath dst)]\<rparr>))"

definition os_remove :: "path \<Rightarrow> world \<Rightarrow> unit outcome" where
  "os_remove p w =
     (case unlink (disk w) p of
        Inl e \<Rightarrow> (Inl e, w)
      | Inr fs' \<Rightarrow> (Inr (), w\<lparr>disk := fs', effects := effects w @ [RemoveFile (normpath p)]\<rparr>))"

definition os_rmdir :: "path \<Rightarrow> world \<Rightarrow> unit outcome" where
  "os_rmdir p w =
     (case rmdir (disk w) p of
        Inl e \<Rightarrow> (Inl e, w)
      | Inr fs' \<Rightarrow> (Inr (), w\<lparr>disk := fs', effects := effects w @ [RemoveDir (normpath p)]\<rparr>))"

text \<open>
  \<open>os.path.getmtime\<close> returns \<open>st_mtime\<close>, the float that CPython computes from the
  timestamp as \<open>sec + 1e-9*nsec\<close> in IEEE 754 double arithmetic: the product is rounded
  to 53 significant bits, then the sum is. The double nearest to \<open>1e-9\<close> is
  \<open>4835703278458517 / 2^82\<close>, so every value that arises is a whole multiple of
  \<open>2^-82\<close> second, and \<open>st_mtime\<close> gives that multiple: the float is
  \<open>st_mtime ns / 2^82\<close> seconds, and two floats compare as their multiples do.
  \<open>round53\<close> is rounding to nearest, ties to even; \<open>bit_length a - 53\<close> is the
  number of bits to drop, zero when there are at most 53.
\<close>

fun bit_length :: "nat \<Rightarrow> nat" where
  "bit_length n = (if n = 0 then 0 else Suc (bit_length (n div 2)))"

declare bit_length.simps [simp del]

definition round53 :: "int \<Rightarrow> int" where
  "round53 k =
     (let a = nat \<bar>k\<bar>;
          s = bit_length a - 53
      in if s = 0 then k
         else (let q = a div 2 ^ s;
                   r = a mod 2 ^ s;
                   half = 2 ^ (s - 1);
                   q' = (if r > half \<or> (r = half \<and> odd q) then q + 1 else q)
               in sgn k * int (q' * 2 ^ s)))"

definition st_mtime :: "int \<Rightarrow> int" where
  "st_mtime ns =
     round53 ((ns div 1000000000) * 2 ^ 82 + round53 (4835703278458517 * (ns mod 1000000000)))"

definition os_path_getmtime :: "platform \<Rightarrow> filesystem \<Rightarrow> path \<Rightarrow> error + int" where
  "os_path_getmtime env fs p =
     (case stat fs p of
        None \<Rightarrow> Inl FileNotFoundError
      | Some (File c m) \<Rightarrow> Inr (st_mtime m)
      | Some Dir \<Rightarrow> Inr (st_mtime (dir_mtime env (normpath p))))"

section \<open>Hashing (\<open>core/utils.py\<close>)\<close>

text \<open>
  \<open>calculate_file_hash\<close> feeds the file to the hasher in blocks of 64 KiB; a hasher
  that was fed \<open>fed\<close> answers \<open>hexdigest()\<close> with the digest of \<open>fed\<close>.
\<close>

function hash_loop :: "bytes \<Rightarrow> bytes \<Rightarrow> bytes" where
  "hash_loop fed rest =
     (let buf = take 65536 rest
      in if length buf > 0 then hash_loop (fed @ buf) (drop 65536 rest) else fed)"
  by pat_completeness auto
termination
  by (relation "measure (\<lambda>(fed, rest). length rest)") auto

declare hash_loop.simps [simp del]

definition calculate_file_hash :: "platform \<Rightarrow> filesystem \<Rightarrow> path \<Rightarrow> error + string" where
  "calculate_file_hash env fs filepath =
     (case read_file fs filepath of
        Inl e \<Rightarrow> Inl e
      | Inr data \<Rightarrow> Inr (md5 env (hash_loop [] data)))"

definition log_sync_action :: "string \<Rightarrow> path \<Rightarrow> path option \<Rightarrow> string option \<Rightarrow> world \<Rightarrow> world" where
  "log_sync_action action src_path dest_path details w =
     logging_info
       (action @ '': '' @ abspath_str src_path @
        (case dest_path of None \<Rightarrow> [] | Some d \<Rightarrow> '' -> '' @ abspath_str d) @
        (case details of None \<Rightarrow> [] | Some d \<Rightarrow> '' ('' @ d @ '')''))
       w"

section \<open>Configuration\<close>

text \<open>
  The settings dictionary of the YAML file and one entry of \<open>sync_pairs\<close>; a key that
  is absent is \<open>None\<close>. \<open>main\<close> hands the handler a copy of the settings with the pair
  under \<open>sync_pair_config\<close>.
\<close>

record sync_pair =
  sp_source :: string
  sp_destination :: string
  sp_exclude :: "string list option"
  sp_conflict_resolution :: "(string \<rightharpoonup> string) option"

record config =
  cfg_skip_hidden :: "bool option"
  cfg_cleanup_empty_dirs :: "bool option"
  cfg_log_level :: "string option"
  cfg_conflict_resolution :: "(string \<rightharpoonup> string) option"
  cfg_sync_pair_config :: "sync_pair option"

definition empty_config :: config where
  "empty_config =
     \<lparr>cfg_skip_hidden = None, cfg_cleanup_empty_dirs = None, cfg_log_level = None,
      cfg_conflict_resolution = None, cfg_sync_pair_config = None\<rparr>"

definition sync_pair_settings :: "config \<Rightarrow> sync_pair \<Rightarrow> config" where
  "sync_pair_settings settings pair = settings\<lparr>cfg_sync_pair_config := Some pair\<rparr>"

text \<open>\<open>config.get('skip_hidden', True)\<close> and \<open>config.get('cleanup_empty_dirs', True)\<close>.\<close>

definition skip_hidden :: "config \<Rightarrow> bool" where
  "skip_hidden c = (case cfg_skip_hidden c of None \<Rightarrow> True | Some b \<Rightarrow> b)"

definition cleanup_enabled :: "config \<Rightarrow> bool" where
  "cleanup_enabled c = (case cfg_cleanup_empty_dirs c of None \<Rightarrow> True | Some b \<Rightarrow> b)"

section \<open>\<open>SyncHandler\<close> (\<open>core/handler.py\<close>)\<close>

record handler =
  source_dir :: path
  destination_dir :: path
  exclude_patterns :: "string list"
  config :: config
  dry_run :: bool
  is_syncing :: bool
  conflict_settings :: "string \<rightharpoonup> string"

definition default_conflict_settings :: "string \<rightharpoonup> string" where
  "default_conflict_settings =
     [''deleted_files'' \<mapsto> ''trash'',
      ''modified_files'' \<mapsto> ''keep_both'',
      ''trash_dir'' \<mapsto> ''.trash'',
      ''duplicate_format'' \<mapsto> ''{original_name}_{timestamp}{ext}'']"

text \<open>\<open>d.get(key, {})\<close> for a dictionary-valued key.\<close>

definition get_dict :: "('k \<rightharpoonup> 'v) option \<Rightarrow> ('k \<rightharpoonup> 'v)" where
  "get_dict d = (case d of None \<Rightarrow> Map.empty | Some m \<Rightarrow> m)"

text \<open>\<open>__init__\<close>: \<open>dict.update\<close> is \<open>++\<close>, the later dictionary winning key by key.\<close>

definition SyncHandler_init :: "path \<Rightarrow> path \<Rightarrow> string list option \<Rightarrow> config option \<Rightarrow> bool \<Rightarrow> handler" where
  "SyncHandler_init source destination excludes cfg dry =
     (let c = (case cfg of None \<Rightarrow> empty_config | Some c \<Rightarrow> c)
      in \<lparr>source_dir = normpath source,
          destination_dir = normpath destination,
          exclude_patterns = (case excludes of None \<Rightarrow> [] | Some ps \<Rightarrow> ps),
          config = c,
          dry_run = dry,
          is_syncing = False,
          conflict_settings =
            default_conflict_settings
              ++ get_dict (cfg_conflict_resolution c)
              ++ get_dict (case cfg_sync_pair_config c of
                             None \<Rightarrow> None
                           | Some pair \<Rightarrow> sp_conflict_resolution pair)\<rparr>)"

text \<open>\<open>self.conflict_settings[key]\<close>.\<close>

definition conflict_setting :: "handler \<Rightarrow> string \<Rightarrow> error + string" where
  "conflict_setting h key =
     (case conflict_settings h key of None \<Rightarrow> Inl (KeyError key) | Some v \<Rightarrow> Inr v)"

definition should_exclude :: "platform \<Rightarrow> handler \<Rightarrow> path \<Rightarrow> bool" where
  "should_exclude env h p =
     (let relative_path = relpath p (source_dir h)
      in if skip_hidden (config h)
            \<and> list_ex (\<lambda>part. startswith part ''.'') (path_parts relative_path)
         then True
         else list_ex (\<lambda>pattern. fnmatch env relative_path pattern) (exclude_patterns h))"

definition files_are_identical :: "platform \<Rightarrow> filesystem \<Rightarrow> path \<Rightarrow> path \<Rightarrow> error + bool" where
  "files_are_identical env fs file1 file2 =
     (case calculate_file_hash env fs file1 of
        Inl e \<Rightarrow> if is_OSError e then Inr False else Inl e
      | Inr h1 \<Rightarrow>
          (case calculate_file_hash env fs file2 of
             Inl e \<Rightarrow> if is_OSError e then Inr False else Inl e
           | Inr h2 \<Rightarrow> Inr (h1 = h2)))"

definition get_trash_path :: "handler \<Rightarrow> string \<Rightarrow> world \<Rightarrow> path outcome" where
  "get_trash_path h filename w =
     and_then (conflict_setting h ''trash_dir'', w) (\<lambda>trash_setting w.
       let trash_dir = os_path_join (destination_dir h) trash_setting;
           timestamp = strftime (clock w);
           (base_name, ext) = splitext_name filename;
           trash_name = base_name @ ''_'' @ timestamp @ ext
       in (Inr (os_path_join trash_dir trash_name),
           logging_info (''Trash location: '' @ path_str (os_path_join trash_dir trash_name)) w))"

definition get_duplicate_path :: "handler \<Rightarrow> path \<Rightarrow> world \<Rightarrow> path outcome" where
  "get_duplicate_path h dest_path w =
     (let (base_path, ext) = splitext dest_path;
          timestamp = strftime (clock w);
          original_name = basename base_path
      in and_then (conflict_setting h ''duplicate_format'', w) (\<lambda>template w.
         and_then (str_format template
                     [''original_name'' \<mapsto> original_name, ''timestamp'' \<mapsto> timestamp, ''ext'' \<mapsto> ext], w)
           (\<lambda>new_name w. (Inr (os_path_join (dirname dest_path) new_name), w))))"

text \<open>\<open>try: ... except OSError: pass\<close>.\<close>

definition except_OSError_pass :: "unit outcome \<Rightarrow> unit outcome" where
  "except_OSError_pass r =
     (case r of
        (Inl e, w) \<Rightarrow> if is_OSError e then (Inr (), w) else (Inl e, w)
      | (Inr u, w) \<Rightarrow> (Inr (), w))"

lemma os_rmdir_nonempty_path: "os_rmdir p w = (Inr u, w') \<Longrightarrow> p \<noteq> []"
  by (auto simp: os_rmdir_def rmdir_def normpath_def Let_def split: if_splits sum.splits)

function cleanup_empty_dirs :: "handler \<Rightarrow> path \<Rightarrow> world \<Rightarrow> unit outcome" where
  "cleanup_empty_dirs h directory w =
     (if \<not> os_path_exists (disk w) directory then (Inr (), w)
      else if directory = destination_dir h then (Inr (), w)
      else except_OSError_pass
        (case os_listdir (disk w) directory of
           Inl e \<Rightarrow> (Inl e, w)
         | Inr names \<Rightarrow>
             if names = [] then
               (case os_rmdir directory w of
                  (Inl e, w1) \<Rightarrow> (Inl e, w1)
                | (Inr u, w1) \<Rightarrow>
                    cleanup_empty_dirs h (dirname directory)
                      (logging_info
                         (''Removed empty directory: '' @ relpath directory (destination_dir h)) w1))
             else (Inr (), w)))"
  by pat_completeness auto
termination
  by (relation "measure (\<lambda>(h, directory, w). length directory)")
     (auto simp: dirname_def dest!: os_rmdir_nonempty_path [OF sym])

declare cleanup_empty_dirs.simps [simp del]

definition sync_file_body :: "platform \<Rightarrow> handler \<Rightarrow> path \<Rightarrow> world \<Rightarrow> unit outcome" where
  "sync_file_body env h src_path w =
     (let rel_path = relpath src_path (source_dir h);
          dest_path = os_path_join (destination_dir h) rel_path
      in if should_exclude env h src_path then (Inr (), w)
         else if os_path_exists (disk w) dest_path then
           and_then (files_are_identical env (disk w) src_path dest_path, w) (\<lambda>identical w.
             if identical then (Inr (), w)
             else and_then (conflict_setting h ''modified_files'', w) (\<lambda>modified_files w.
               if modified_files = ''keep_both'' then
                 and_then (get_duplicate_path h dest_path w) (\<lambda>new_dest_path w.
                   if dry_run h then
                     (Inr (), log_sync_action ''Would create new version'' src_path (Some new_dest_path) None w)
                   else
                     and_then (os_makedirs (dirname new_dest_path) w) (\<lambda>_ w.
                     and_then (shutil_copy2 src_path new_dest_path w) (\<lambda>_ w.
                       (Inr (), log_sync_action ''Created new version'' src_path (Some new_dest_path) None w))))
               else if modified_files = ''keep_newest'' then
                 and_then (os_path_getmtime env (disk w) src_path, w) (\<lambda>src_mtime w.
                 and_then (os_path_getmtime env (disk w) dest_path, w) (\<lambda>dest_mtime w.
                   if src_mtime > dest_mtime then
                     (if \<not> dry_run h then
                        and_then (shutil_copy2 src_path dest_path w) (\<lambda>_ w.
                          (Inr (), log_sync_action ''Updated (newer)'' src_path (Some dest_path) None w))
                      else (Inr (), w))
                   else (Inr (), w)))
               else
                 (if \<not> dry_run h then
                    and_then (shutil_copy2 src_path dest_path w) (\<lambda>_ w.
                      (Inr (), log_sync_action ''Updated'' src_path (Some dest_path) None w))
                  else (Inr (), log_sync_action ''Would sync'' src_path (Some dest_path) None w))))
         else
           and_then (os_makedirs (dirname dest_path) w) (\<lambda>_ w.
           and_then (shutil_copy2 src_path dest_path w) (\<lambda>_ w.
             (Inr (), log_sync_action ''Synced'' src_path (Some dest_path) None w))))"

text \<open>
  \<open>try: self.is_syncing = True; ... finally: self.is_syncing = False\<close>: the flag is
  reset whether the body returns or raises, and the exception goes on to the caller.
\<close>

definition sync_file :: "platform \<Rightarrow> handler \<Rightarrow> path \<Rightarrow> world \<Rightarrow> (error + unit) \<times> handler \<times> world" where
  "sync_file env h src_path w =
     (let h1 = h\<lparr>is_syncing := True\<rparr>;
          (r, w') = sync_file_body env h1 src_path w
      in (r, h1\<lparr>is_syncing := False\<rparr>, w'))"

definition handle_delete_body :: "handler \<Rightarrow> path \<Rightarrow> world \<Rightarrow> unit outcome" where
  "handle_delete_body h src_path w =
     (let rel_path = relpath src_path (source_dir h);
          dest_path = os_path_join (destination_dir h) rel_path
      in if \<not> os_path_exists (disk w) dest_path then (Inr (), w)
         else if dry_run h then
           (Inr (), log_sync_action ''Would handle deletion'' src_path (Some dest_path) None w)
         else
           and_then (conflict_setting h ''deleted_files'', w) (\<lambda>deleted_files w.
           and_then
             (if deleted_files = ''trash'' then
                and_then (get_trash_path h (basename dest_path) w) (\<lambda>trash_path w.
                and_then (os_makedirs (dirname trash_path) w) (\<lambda>_ w.
                and_then (shutil_move dest_path trash_path w) (\<lambda>_ w.
                  (Inr (), log_sync_action ''Moved to trash'' dest_path (Some trash_path) None w))))
              else if deleted_files = ''delete'' then
                and_then (os_remove dest_path w) (\<lambda>_ w.
                  (Inr (), log_sync_action ''Deleted'' dest_path None (Some ''permanent deletion'') w))
              else (Inr (), w))
             (\<lambda>_ w.
                if cleanup_enabled (config h)
                then cleanup_empty_dirs h (dirname dest_path) w
                else (Inr (), w))))"

definition handle_delete :: "handler \<Rightarrow> path \<Rightarrow> world \<Rightarrow> (error + unit) \<times> handler \<times> world" where
  "handle_delete h src_path w =
     (let h1 = h\<lparr>is_syncing := True\<rparr>;
          (r, w') = handle_delete_body h1 src_path w
      in (r, h1\<lparr>is_syncing := False\<rparr>, w'))"

text \<open>
  The watchdog callbacks: directory events and events that arrive while the flag is set
  are dropped. \<open>on_moved\<close> compares the new path with the source root as strings.
\<close>

record event =
  ev_is_directory :: bool
  ev_src_path :: path
  ev_dest_path :: path

definition on_created :: "platform \<Rightarrow> handler \<Rightarrow> event \<Rightarrow> world \<Rightarrow> (error + unit) \<times> handler \<times> world" where
  "on_created env h ev w =
     (if ev_is_directory ev \<or> is_syncing h then (Inr (), h, w)
      else sync_file env h (ev_src_path ev) w)"

definition on_modified :: "platform \<Rightarrow> handler \<Rightarrow> event \<Rightarrow> world \<Rightarrow> (error + unit) \<times> handler \<times> world" where
  "on_modified env h ev w =
     (if ev_is_directory ev \<or> is_syncing h then (Inr (), h, w)
      else sync_file env h (ev_src_path ev) w)"

definition on_moved :: "platform \<Rightarrow> handler \<Rightarrow> event \<Rightarrow> world \<Rightarrow> (error + unit) \<times> handler \<times> world" where
  "on_moved env h ev w =
     (if ev_is_directory ev \<or> is_syncing h then (Inr (), h, w)
      else (case handle_delete h (ev_src_path ev) w of
              (Inl e, h1, w1) \<Rightarrow> (Inl e, h1, w1)
            | (Inr u, h1, w1) \<Rightarrow>
                if startswith (path_str (ev_dest_path ev)) (path_str (source_dir h1))
                then sync_file env h1 (ev_dest_path ev) w1
                else (Inr (), h1, w1)))"

definition on_deleted :: "handler \<Rightarrow> event \<Rightarrow> world \<Rightarrow> (error + unit) \<times> handler \<times> world" where
  "on_deleted h ev w =
     (if ev_is_directory ev \<or> is_syncing h then (Inr (), h, w)
      else handle_delete h (ev_src_path ev) w)"

section \<open>The initial full-tree pass (\<open>cli/main.py\<close>)\<close>

text \<open>\<open>except Exception\<close> catches every exception of the model.\<close>

fun is_Exception :: "error \<Rightarrow> bool" where
  "is_Exception e = True"

text \<open>
  The first pass over the source tree: the inner loop over the files of one directory,
  and the loop over \<open>os.walk(source_dir)\<close>, which prunes hidden directories. With no
  configuration at all, \<open>config.get\<close> raises in the first round of the loop.
\<close>

fun scan_files :: "platform \<Rightarrow> handler \<Rightarrow> path \<Rightarrow> path \<Rightarrow> string list
    \<Rightarrow> path list \<times> string set \<Rightarrow> path list \<times> string set" where
  "scan_files env h source root [] acc = acc"
| "scan_files env h source root (file # files) (files_to_sync, source_files) =
     (let src_file = os_path_join root file
      in if \<not> should_exclude env h src_file
         then scan_files env h source root files
                (files_to_sync @ [src_file], insert (relpath src_file source) source_files)
         else scan_files env h source root files (files_to_sync, source_files))"

definition scan_source :: "platform \<Rightarrow> handler \<Rightarrow> config option \<Rightarrow> path \<Rightarrow> filesystem
    \<Rightarrow> error + path list \<times> string set" where
  "scan_source env h cfg source fs =
     (case cfg of
        None \<Rightarrow> if os_walk False fs source = [] then Inr ([], {}) else Inl AttributeError
      | Some c \<Rightarrow>
          Inr (foldl (\<lambda>acc (root, dirs, files). scan_files env h source root files acc)
                 ([], {}) (os_walk (skip_hidden c) fs source)))"

text \<open>
  \<open>sync_worker\<close> and the loop over the submitted tasks. The thread pool is modelled as
  running the tasks one after the other, in the order of \<open>files_to_sync\<close>.
\<close>

definition sync_worker :: "platform \<Rightarrow> path \<Rightarrow> handler \<Rightarrow> world \<Rightarrow> (error + bool) \<times> handler \<times> world" where
  "sync_worker env src_file h w =
     (case sync_file env h src_file w of
        (Inr u, h', w') \<Rightarrow> (Inr True, h', w')
      | (Inl e, h', w') \<Rightarrow>
          if is_Exception e
          then (Inr False, h',
                logging_error (''Error syncing '' @ path_str src_file @ '': '' @ exception_text env e) w')
          else (Inl e, h', w'))"

fun sync_phase :: "platform \<Rightarrow> path list \<Rightarrow> handler \<Rightarrow> world \<Rightarrow> handler \<times> world" where
  "sync_phase env [] h w = (h, w)"
| "sync_phase env (src_file # rest) h w =
     (case sync_worker env src_file h w of
        (Inr b, h', w') \<Rightarrow> sync_phase env rest h' w'
      | (Inl e, h', w') \<Rightarrow>
          sync_phase env rest h'
            (if is_Exception e
             then logging_error (''Error processing '' @ path_str src_file @ '': '' @ exception_text env e) w'
             else w'))"

text \<open>
  The second pass, over the destination tree (no pruning there): the files that are not
  excluded and whose path relative to the destination is not among the source files.
\<close>

fun scan_dest_files :: "platform \<Rightarrow> handler \<Rightarrow> path \<Rightarrow> string set \<Rightarrow> path \<Rightarrow> string list
    \<Rightarrow> (path \<times> string) list \<Rightarrow> (path \<times> string) list" where
  "scan_dest_files env h destination source_files root [] acc = acc"
| "scan_dest_files env h destination source_files root (file # files) acc =
     (let dest_file = os_path_join root file
      in if \<not> should_exclude env h dest_file
         then (let rel_path = relpath dest_file destination
               in scan_dest_files env h destination source_files root files
                    (if rel_path \<notin> source_files then acc @ [(dest_file, rel_path)] else acc))
         else scan_dest_files env h destination source_files root files acc)"

definition scan_destination :: "platform \<Rightarrow> handler \<Rightarrow> path \<Rightarrow> string set \<Rightarrow> filesystem
    \<Rightarrow> (path \<times> string) list" where
  "scan_destination env h destination source_files fs =
     foldl (\<lambda>acc (root, dirs, files). scan_dest_files env h destination source_files root files acc)
       [] (os_walk False fs destination)"

text \<open>
  \<open>delete_worker\<close> has no handler of its own and nobody asks its future for the result:
  an exception of \<open>handle_delete\<close> ends that task and is never seen.
\<close>

fun delete_phase :: "path \<Rightarrow> (path \<times> string) list \<Rightarrow> handler \<Rightarrow> world \<Rightarrow> handler \<times> world" where
  "delete_phase source [] h w = (h, w)"
| "delete_phase source ((dest_file, rel_path) # rest) h w =
     (case handle_delete h (os_path_join source rel_path) w of
        (r, h', w') \<Rightarrow> delete_phase source rest h' w')"

definition perform_initial_sync :: "platform \<Rightarrow> path \<Rightarrow> path \<Rightarrow> string list option \<Rightarrow> config option
    \<Rightarrow> bool \<Rightarrow> world \<Rightarrow> unit outcome" where
  "perform_initial_sync env source destination excludes cfg dry w0 =
     (let w = logging_info (''Starting initial sync from '' @ path_str source @ '' to ''
                              @ path_str destination) w0;
          h = SyncHandler_init source destination excludes cfg dry
      in and_then
           (if \<not> os_path_exists (disk w) destination then
              and_then (if \<not> dry then os_makedirs destination w else (Inr (), w)) (\<lambda>_ w.
                (Inr (), logging_info (''Created destination directory: '' @ path_str destination) w))
            else (Inr (), w))
           (\<lambda>_ w.
      and_then (scan_source env h cfg source (disk w), w) (\<lambda>(files_to_sync, source_files) w.
        (case sync_phase env files_to_sync h w of
           (h1, w1) \<Rightarrow>
             (case delete_phase source
                     (scan_destination env h1 destination source_files (disk w1)) h1 w1 of
                (h2, w2) \<Rightarrow> (Inr (), logging_info ''Initial sync completed'' w2))))))"

section \<open>Well-formed paths\<close>

text \<open>
  A proper name is a component a normalised absolute path can have; a canonical path has
  only such components. \<open>os.path.abspath\<close> gives canonical paths, and so do the watcher
  and \<open>os.walk\<close> below a canonical root.
\<close>

definition proper_name :: "string \<Rightarrow> bool" where
  "proper_name s = (s \<noteq> [] \<and> s \<noteq> ''.'' \<and> s \<noteq> ''..'' \<and> CHR ''/'' \<notin> set s)"

definition canonical :: "path \<Rightarrow> bool" where
  "canonical p = list_all proper_name p"

text \<open>
  The destination counterpart of a source path, as the first two lines of \<open>sync_file\<close>
  and of \<open>handle_delete\<close> compute it; a source file proper, which lies below the source
  root, all paths canonical; and a file system in which every entry has a canonical path
  and lies in a directory.
\<close>

definition counterpart :: "handler \<Rightarrow> path \<Rightarrow> path" where
  "counterpart h src_path = os_path_join (destination_dir h) (relpath src_path (source_dir h))"

definition below_source :: "handler \<Rightarrow> path \<Rightarrow> bool" where
  "below_source h p =
     (canonical (source_dir h) \<and> canonical (destination_dir h) \<and> canonical p
      \<and> strict_prefix (source_dir h) p)"


definition is_digit :: "char \<Rightarrow> bool" where
  "is_digit c = (c \<in> set ''0123456789'')"

section \<open>A small world for the examples\<close>

text \<open>
  The examples run on a platform whose digest is the byte string itself and whose pattern
  match is equality; the general theorems hold for every platform. Modification times
  are in nanoseconds: \<open>5000000000\<close> is five seconds after the epoch.
\<close>

definition example_platform :: platform where
  "example_platform =
     \<lparr>md5 = (\<lambda>b. b), fnmatch = (\<lambda>name pat. name = pat), dir_mtime = (\<lambda>p. 0),
      exception_text = (\<lambda>e. ''error'')\<rparr>"

definition noon :: datetime where
  "noon = \<lparr>year = 2024, month = 1, day = 5, hour = 12, minute = 0, second = 9\<rparr>"


definition world_of :: "filesystem \<Rightarrow> world" where
  "world_of fs = \<lparr>disk = fs, effects = [], logs = [], clock = noon\<rparr>"

definition example_handler :: "bool \<Rightarrow> handler" where
  "example_handler dry = SyncHandler_init [''src''] [''dst''] None None dry"

text \<open>
  The exclusion check as the specification words it, relative to a root that the caller
  names (the tree's own root), to compare with \<open>should_exclude\<close>.
\<close>

definition is_excluded_relative_to :: "platform \<Rightarrow> handler \<Rightarrow> path \<Rightarrow> path \<Rightarrow> bool" where
  "is_excluded_relative_to env h root p =
     (let relative_path = relpath p root
      in (skip_hidden (config h) \<and> list_ex (\<lambda>part. startswith part ''.'') (path_parts relative_path))
         \<or> list_ex (\<lambda>pattern. fnmatch env relative_path pattern) (exclude_patterns h))"






section \<open>Facts about the model\<close>



lemma lookup_delete:
  "lookup (AList.delete k fs) q = (if q = [] then Some Dir else if q = k then None else lookup fs q)"
  by (simp add: lookup_def delete_conv')





lemma should_exclude_is_syncing [simp]:
  "should_exclude env (h\<lparr>is_syncing := b\<rparr>) p = should_exclude env h p"
  by (simp add: should_exclude_def)

lemma conflict_setting_is_syncing [simp]:
  "conflict_setting (h\<lparr>is_syncing := b\<rparr>) k = conflict_setting h k"
  by (simp add: conflict_setting_def)

lemma get_duplicate_path_is_syncing [simp]:
  "get_duplicate_path (h\<lparr>is_syncing := b\<rparr>) p w = get_duplicate_path h p w"
  by (simp add: get_duplicate_path_def)

lemma get_trash_path_is_syncing [simp]:
  "get_trash_path (h\<lparr>is_syncing := b\<rparr>) p w = get_trash_path h p w"
  by (simp add: get_trash_path_def)

lemma sync_file_body_is_syncing [simp]:
  "sync_file_body env (h\<lparr>is_syncing := b\<rparr>) p w = sync_file_body env h p w"
  by (simp add: sync_file_body_def Let_def cong: if_cong)

lemma sync_file_eq:
  "sync_file env h p w = (fst (sync_file_body env h p w), h\<lparr>is_syncing := False\<rparr>, snd (sync_file_body env h p w))"
  by (simp add: sync_file_def Let_def split: prod.splits)

lemma and_then_Inr [simp]: "and_then (Inr x, w) f = f x w"
  by (simp add: and_then_def)

lemma and_then_Inl [simp]: "and_then (Inl e, w) f = (Inl e, w)"
  by (simp add: and_then_def)



subsection \<open>Paths\<close>

lemma foldl_norm_step_canonical:
  "canonical p \<Longrightarrow> foldl norm_step acc p = rev p @ acc"
  by (induction p arbitrary: acc) (auto simp: canonical_def proper_name_def)

lemma normpath_canonical [simp]: "canonical p \<Longrightarrow> normpath p = p"
  by (simp add: normpath_def foldl_norm_step_canonical)

lemma canonical_append [simp]: "canonical (p @ q) = (canonical p \<and> canonical q)"
  by (simp add: canonical_def)

lemma canonical_Nil [simp]: "canonical []"
  by (simp add: canonical_def)

lemma canonical_Cons [simp]: "canonical (x # p) = (proper_name x \<and> canonical p)"
  by (simp add: canonical_def)


lemma longest_common_prefix_append [simp]: "longest_common_prefix s (s @ r) = s"
  by (induction s) auto

lemma split_on_nonempty [simp]: "split_on c s \<noteq> []"
  by (induction s) (auto split: list.splits)

lemma split_on_no_sep: "c \<notin> set s \<Longrightarrow> split_on c s = [s]"
  by (induction s) auto

lemma split_on_append_sep:
  "c \<notin> set s \<Longrightarrow> split_on c (s @ c # r) = s # split_on c r"
  by (induction s) (auto split: list.splits)

lemma split_join_on:
  "ss \<noteq> [] \<Longrightarrow> list_all (\<lambda>s. c \<notin> set s) ss \<Longrightarrow> split_on c (join_on c ss) = ss"
proof (induction c ss rule: join_on.induct)
  case (1 c)
  then show ?case by simp
next
  case (2 c s)
  then show ?case by (simp add: split_on_no_sep)
next
  case (3 c s t ss)
  then show ?case by (simp add: split_on_append_sep)
qed

lemma canonical_no_sep: "canonical p \<Longrightarrow> list_all (\<lambda>s. CHR ''/'' \<notin> set s) p"
  by (induction p) (auto simp: proper_name_def)

lemma split_path_join [simp]:
  "canonical rel \<Longrightarrow> rel \<noteq> [] \<Longrightarrow> split_path (join_on CHR ''/'' rel) = rel"
  by (simp add: split_path_def split_join_on canonical_no_sep)

lemma join_on_hd: "rel \<noteq> [] \<Longrightarrow> hd rel \<noteq> [] \<Longrightarrow> hd (join_on c rel) = hd (hd rel)"
  by (induction c rel rule: join_on.induct) auto

lemma join_on_nonempty: "rel \<noteq> [] \<Longrightarrow> hd rel \<noteq> [] \<Longrightarrow> join_on c rel \<noteq> []"
  by (induction c rel rule: join_on.induct) auto

lemma not_startswith_sep:
  assumes "canonical rel" and "rel \<noteq> []"
  shows "\<not> startswith (join_on CHR ''/'' rel) ''/''"
proof -
  from assms obtain x xs where rel: "rel = x # xs" by (cases rel) auto
  with assms have x: "x \<noteq> []" "CHR ''/'' \<notin> set x" by (auto simp: proper_name_def)
  then have "hd x \<noteq> CHR ''/''" by (cases x) auto
  moreover have "hd (join_on CHR ''/'' rel) = hd x" "join_on CHR ''/'' rel \<noteq> []"
    using rel x join_on_hd [of rel "CHR ''/''"] join_on_nonempty [of rel "CHR ''/''"] by auto
  ultimately show ?thesis
    by (cases "join_on CHR ''/'' rel") (auto simp: startswith_def)
qed

lemma relpath_below:
  assumes "canonical s" and "canonical rel" and "rel \<noteq> []"
  shows "relpath (s @ rel) s = join_on CHR ''/'' rel"
  using assms by (simp add: relpath_def Let_def)

lemma os_path_join_relpath_below:
  assumes "canonical s" and "canonical rel" and "rel \<noteq> []"
  shows "os_path_join d (relpath (s @ rel) s) = d @ rel"
  using assms by (simp add: relpath_below os_path_join_def not_startswith_sep)

subsection \<open>Directories and copies\<close>

lemma lookup_root [simp]: "lookup fs [] = Some Dir"
  by (simp add: lookup_def)



lemma counterpart_below:
  assumes "below_source h p"
  shows "counterpart h p = destination_dir h @ drop (length (source_dir h)) p"
    and "canonical (counterpart h p)"
    and "counterpart h p \<noteq> []"
proof -
  from assms obtain rel where p: "p = source_dir h @ rel" and rel: "rel \<noteq> []"
    by (auto simp: below_source_def strict_prefix_def prefix_def)
  from assms p have c: "canonical (source_dir h)" "canonical (destination_dir h)" "canonical rel"
    by (auto simp: below_source_def)
  show eq: "counterpart h p = destination_dir h @ drop (length (source_dir h)) p"
    using os_path_join_relpath_below [OF c(1) c(3) rel] by (simp add: counterpart_def p)
  show "canonical (counterpart h p)" unfolding eq using c p by simp
  show "counterpart h p \<noteq> []" unfolding eq using rel p by simp
qed


lemma isl_emit [simp]: "isl (emit v r) = isl r"
  by (cases r) (auto simp: emit_def)



subsection \<open>The branches of \<open>sync_file\<close>\<close>

lemma log_sync_action_fields [simp]:
  "disk (log_sync_action a s d x w) = disk w"
  "effects (log_sync_action a s d x w) = effects w"
  "clock (log_sync_action a s d x w) = clock w"
  by (simp_all add: log_sync_action_def logging_info_def)











lemma and_then_Inr_iff:
  "and_then r f = (Inr y, w') \<longleftrightarrow> (\<exists>x w1. r = (Inr x, w1) \<and> f x w1 = (Inr y, w'))"
  by (cases r; cases "fst r") (auto simp: and_then_def)




lemma and_then_InrE:
  assumes "and_then r f = (Inr y, w')"
  obtains x w1 where "r = (Inr x, w1)" and "f x w1 = (Inr y, w')"
  using assms unfolding and_then_Inr_iff by blast


lemma sync_file_handler: "fst (snd (sync_file env h p w)) = h\<lparr>is_syncing := False\<rparr>"
  by (simp add: sync_file_eq)

lemma sync_file_is_syncing [simp]: "sync_file env (h\<lparr>is_syncing := b\<rparr>) p w = sync_file env h p w"
  by (simp add: sync_file_eq)




lemma proper_name_join [simp]:
  "proper_name n \<Longrightarrow> os_path_join d n = d @ [n]"
proof -
  assume p: "proper_name n"
  then have "\<not> startswith n ''/''"
    by (cases n) (auto simp: proper_name_def startswith_def)
  moreover from p have "split_path n = [n]"
    by (simp add: split_path_def split_on_no_sep proper_name_def)
  ultimately show ?thesis by (simp add: os_path_join_def)
qed




subsection \<open>Timestamps and names\<close>

lemma digit_nth: "k < 10 \<Longrightarrow> is_digit (''0123456789'' ! k)"
  unfolding is_digit_def by (intro nth_mem) simp

lemma digits_chars: "list_all is_digit (digits n)"
proof (induction n rule: digits.induct)
  case (1 n)
  show ?case
  proof (cases "n < 10")
    case True
    then show ?thesis by (subst digits.simps) (simp add: digit_nth)
  next
    case False
    have "n mod 10 < 10" by simp
    then have "is_digit (''0123456789'' ! (n mod 10))" by (rule digit_nth)
    with False 1 show ?thesis by (subst digits.simps) simp
  qed
qed

lemma zpad_chars: "list_all is_digit (zpad k n)"
proof -
  have "is_digit CHR ''0''" by (simp add: is_digit_def)
  with digits_chars [of n] show ?thesis by (auto simp: zpad_def list_all_iff)
qed

lemma is_digit_not_sep: "is_digit c \<Longrightarrow> c \<noteq> CHR ''/''"
  by (auto simp: is_digit_def)

lemma digits_no_sep: "list_all is_digit s \<Longrightarrow> CHR ''/'' \<notin> set s"
  by (auto simp: list_all_iff dest: is_digit_not_sep)

lemma strftime_no_sep: "CHR ''/'' \<notin> set (strftime t)"
  using digits_no_sep [OF zpad_chars [of 4 "year t"]] digits_no_sep [OF zpad_chars [of 2 "month t"]]
    digits_no_sep [OF zpad_chars [of 2 "day t"]] digits_no_sep [OF zpad_chars [of 2 "hour t"]]
    digits_no_sep [OF zpad_chars [of 2 "minute t"]] digits_no_sep [OF zpad_chars [of 2 "second t"]]
  by (simp add: strftime_def)

lemma splitext_name_append: "splitext_name n = (stem, ext) \<Longrightarrow> stem @ ext = n"
  by (cases "CHR ''.'' \<in> set n") (auto simp: splitext_name_def Let_def split: if_splits)

text \<open>
  The name the default template gives (and the name a trashed file gets): a proper file
  name, and never the name it was made from.
\<close>

lemma timestamped_name:
  assumes "proper_name n" and "splitext_name n = (stem, ext)"
  shows "proper_name (stem @ ''_'' @ strftime t @ ext)"
    and "stem @ ''_'' @ strftime t @ ext \<noteq> n"
proof -
  let ?new = "stem @ ''_'' @ strftime t @ ext"
  from assms(2) have n: "stem @ ext = n" by (rule splitext_name_append)
  with assms(1) have sep: "CHR ''/'' \<notin> set stem" "CHR ''/'' \<notin> set ext"
    by (auto simp: proper_name_def)
  have us: "CHR ''_'' \<in> set ?new" by simp
  have e: "?new \<noteq> []" by simp
  have d1: "?new \<noteq> ''.''"
  proof
    assume "?new = ''.''"
    with us have "CHR ''_'' \<in> set ''.''" by (simp only:)
    then show False by simp
  qed
  have d2: "?new \<noteq> ''..''"
  proof
    assume "?new = ''..''"
    with us have "CHR ''_'' \<in> set ''..''" by (simp only:)
    then show False by simp
  qed
  have "CHR ''/'' \<notin> set ?new" using sep strftime_no_sep [of t] by simp
  with e d1 d2 show "proper_name ?new" unfolding proper_name_def by blast
  have "length ?new > length (stem @ ext)" by simp
  with n show "?new \<noteq> n" by auto
qed

subsection \<open>The float of a timestamp\<close>











subsection \<open>The example pair, step by step\<close>

lemma default_template_expands:
  "str_format ''{original_name}_{timestamp}{ext}''
     [''original_name'' \<mapsto> n, ''timestamp'' \<mapsto> t, ''ext'' \<mapsto> e] = Inr (n @ ''_'' @ t @ e)"
  by (simp add: str_format_def lookup_field_def emit_def)









text \<open>
  With the default template the new name is a proper file name and never the name of the
  destination itself, whatever the clock reads.
\<close>

lemma default_duplicate_name:
  assumes bs: "below_source h p"
    and sx: "splitext_name (basename (counterpart h p)) = (stem, ext)"
  shows "proper_name (stem @ ''_'' @ strftime t @ ext)"
    and "stem @ ''_'' @ strftime t @ ext \<noteq> basename (counterpart h p)"
proof -
  note cb = counterpart_below [OF bs]
  from cb(2,3) have "proper_name (basename (counterpart h p))"
    by (cases "counterpart h p" rule: rev_cases) (simp_all add: basename_def)
  then show "proper_name (stem @ ''_'' @ strftime t @ ext)"
    and "stem @ ''_'' @ strftime t @ ext \<noteq> basename (counterpart h p)"
    using sx by (rule timestamped_name)+
qed

section \<open>Claims\<close>

subsection \<open>C1: dry-run\<close>

text \<open>
  C1. With dry-run on, no call of \<open>sync_file\<close> or \<open>handle_delete\<close> changes the file
  system. The code breaks this where the destination counterpart does not exist yet: that
  branch of \<open>sync_file\<close> in \<open>core/handler.py\<close> does not look at \<open>dry_run\<close> (the same
  branch of \<open>sync5.py\<close> does) and copies the file. Evaluated here on \<open>/src/a.txt\<close> with
  an empty \<open>/dst\<close>.
\<close>

theorem dry_run_sync_file_copies_when_destination_absent:
  "dry_run (example_handler True)
   \<and> fst (sync_file example_platform (example_handler True) [''src'', ''a.txt'']
            (world_of [([''src''], Dir), ([''src'', ''a.txt''], File ''X'' 5), ([''dst''], Dir)]))
       = Inr ()
   \<and> disk (snd (snd (sync_file example_platform (example_handler True) [''src'', ''a.txt'']
            (world_of [([''src''], Dir), ([''src'', ''a.txt''], File ''X'' 5), ([''dst''], Dir)]))))
       = [([''src''], Dir), ([''src'', ''a.txt''], File ''X'' 5), ([''dst''], Dir),
          ([''dst'', ''a.txt''], File ''X'' 5)]
   \<and> effects (snd (snd (sync_file example_platform (example_handler True) [''src'', ''a.txt'']
            (world_of [([''src''], Dir), ([''src'', ''a.txt''], File ''X'' 5), ([''dst''], Dir)]))))
       = [CopyFile [''src'', ''a.txt''] [''dst'', ''a.txt'']]"
  by code_simp

subsection \<open>C4: the exclusion check on the destination tree\<close>

text \<open>
  C4. The destination scan of \<open>perform_initial_sync\<close> calls \<open>should_exclude\<close> on
  destination files, and \<open>should_exclude\<close> always relativises against the source root.
  For a destination outside the source tree the relative path starts with \<open>..\<close>, which
  counts as hidden: with the default \<open>skip_hidden\<close> the file \<open>/mnt/ssd/docs/old.txt\<close> is
  excluded, although relative to its own root it is \<open>old.txt\<close> and not excluded, and the
  scan finds no orphan.
\<close>

theorem should_exclude_relativises_destination_against_source:
  "should_exclude example_platform
      (SyncHandler_init [''home'', ''u'', ''docs''] [''mnt'', ''ssd'', ''docs''] None None False)
      [''mnt'', ''ssd'', ''docs'', ''old.txt'']
   \<and> \<not> is_excluded_relative_to example_platform
      (SyncHandler_init [''home'', ''u'', ''docs''] [''mnt'', ''ssd'', ''docs''] None None False)
      [''mnt'', ''ssd'', ''docs''] [''mnt'', ''ssd'', ''docs'', ''old.txt'']
   \<and> scan_destination example_platform
      (SyncHandler_init [''home'', ''u'', ''docs''] [''mnt'', ''ssd'', ''docs''] None None False)
      [''mnt'', ''ssd'', ''docs''] {}
      [([''home''], Dir), ([''home'', ''u''], Dir), ([''home'', ''u'', ''docs''], Dir),
       ([''mnt''], Dir), ([''mnt'', ''ssd''], Dir), ([''mnt'', ''ssd'', ''docs''], Dir),
       ([''mnt'', ''ssd'', ''docs'', ''old.txt''], File ''O'' 1)] = []"
  by code_simp

subsection \<open>C6: the effective conflict policy\<close>

text \<open>
  C6. The handler that \<open>main\<close> builds for a pair has, key by key, the pair's conflict
  setting if the pair gives one, else the global one if the settings give one, else the
  hardcoded default; the defaults are trash, keep both, \<open>.trash\<close> and the template that
  expands to stem, underscore, timestamp, extension.
\<close>

theorem conflict_settings_layers:
  "conflict_settings (SyncHandler_init source destination excludes (Some (sync_pair_settings settings pair)) dry) key =
     (case get_dict (sp_conflict_resolution pair) key of
        Some v \<Rightarrow> Some v
      | None \<Rightarrow>
          (case get_dict (cfg_conflict_resolution settings) key of
             Some v \<Rightarrow> Some v
           | None \<Rightarrow> default_conflict_settings key))
   \<and> default_conflict_settings ''deleted_files'' = Some ''trash''
   \<and> default_conflict_settings ''modified_files'' = Some ''keep_both''
   \<and> default_conflict_settings ''trash_dir'' = Some ''.trash''
   \<and> default_conflict_settings ''duplicate_format'' = Some ''{original_name}_{timestamp}{ext}''
   \<and> str_format ''{original_name}_{timestamp}{ext}''
        [''original_name'' \<mapsto> stem, ''timestamp'' \<mapsto> ts, ''ext'' \<mapsto> ext] = Inr (stem @ ''_'' @ ts @ ext)"
  by (simp add: SyncHandler_init_def sync_pair_settings_def map_add_def Let_def
        default_conflict_settings_def default_template_expands split: option.splits)

theorem conflict_settings_layers_witness:
  "conflict_settings
     (SyncHandler_init [''src''] [''dst''] None
        (Some (sync_pair_settings
                 (empty_config\<lparr>cfg_conflict_resolution :=
                    Some [''modified_files'' \<mapsto> ''overwrite'', ''trash_dir'' \<mapsto> ''bin'']\<rparr>)
                 \<lparr>sp_source = ''~/src'', sp_destination = ''dst'', sp_exclude = None,
                  sp_conflict_resolution = Some [''modified_files'' \<mapsto> ''keep_newest'']\<rparr>))
        False) ''modified_files'' = Some ''keep_newest''
   \<and> conflict_settings
     (SyncHandler_init [''src''] [''dst''] None
        (Some (sync_pair_settings
                 (empty_config\<lparr>cfg_conflict_resolution :=
                    Some [''modified_files'' \<mapsto> ''overwrite'', ''trash_dir'' \<mapsto> ''bin'']\<rparr>)
                 \<lparr>sp_source = ''~/src'', sp_destination = ''dst'', sp_exclude = None,
                  sp_conflict_resolution = Some [''modified_files'' \<mapsto> ''keep_newest'']\<rparr>))
        False) ''trash_dir'' = Some ''bin''
   \<and> conflict_settings
     (SyncHandler_init [''src''] [''dst''] None
        (Some (sync_pair_settings
                 (empty_config\<lparr>cfg_conflict_resolution :=
                    Some [''modified_files'' \<mapsto> ''overwrite'', ''trash_dir'' \<mapsto> ''bin'']\<rparr>)
                 \<lparr>sp_source = ''~/src'', sp_destination = ''dst'', sp_exclude = None,
                  sp_conflict_resolution = Some [''modified_files'' \<mapsto> ''keep_newest'']\<rparr>))
        False) ''deleted_files'' = Some ''trash''"
proof -
  let ?settings = "empty_config\<lparr>cfg_conflict_resolution :=
                    Some [''modified_files'' \<mapsto> ''overwrite'', ''trash_dir'' \<mapsto> ''bin'']\<rparr>"
  let ?pair = "\<lparr>sp_source = ''~/src'', sp_destination = ''dst'', sp_exclude = None,
                  sp_conflict_resolution = Some [''modified_files'' \<mapsto> ''keep_newest'']\<rparr>"
  note layers = conflict_settings_layers [of "[''src'']" "[''dst'']" None ?settings ?pair False]
  have a: "conflict_settings (SyncHandler_init [''src''] [''dst''] None (Some (sync_pair_settings ?settings ?pair)) False)
             ''modified_files'' = Some ''keep_newest''"
    using layers [of "''modified_files''"] by (simp add: get_dict_def)
  have b: "conflict_settings (SyncHandler_init [''src''] [''dst''] None (Some (sync_pair_settings ?settings ?pair)) False)
             ''trash_dir'' = Some ''bin''"
    using layers [of "''trash_dir''"] by (simp add: get_dict_def empty_config_def)
  have c: "conflict_settings (SyncHandler_init [''src''] [''dst''] None (Some (sync_pair_settings ?settings ?pair)) False)
             ''deleted_files'' = Some ''trash''"
    using layers [of "''deleted_files''"] by (simp add: get_dict_def empty_config_def)
  from a b c show ?thesis by simp
qed

subsection \<open>C9: the reentrancy flag\<close>

text \<open>
  C9. Whatever the path, the handler and the world, and whether the call returns or
  raises, \<open>sync_file\<close> and \<open>handle_delete\<close> leave \<open>is_syncing\<close> False.
\<close>

theorem is_syncing_reset_on_exit:
  "\<not> is_syncing (fst (snd (sync_file env h src_path w)))
   \<and> \<not> is_syncing (fst (snd (handle_delete h src_path w)))"
  by (simp add: sync_file_def handle_delete_def Let_def split: prod.splits)

theorem is_syncing_reset_on_exit_witness:
  "fst (sync_file example_platform (example_handler False) [''src'', ''gone.txt'']
          (world_of [([''src''], Dir), ([''dst''], Dir)])) = Inl FileNotFoundError
   \<and> \<not> is_syncing (fst (snd (sync_file example_platform (example_handler False) [''src'', ''gone.txt'']
          (world_of [([''src''], Dir), ([''dst''], Dir)]))))
   \<and> \<not> is_syncing (fst (snd (handle_delete (example_handler False) [''src'', ''gone.txt'']
          (world_of [([''src''], Dir), ([''dst''], Dir)]))))"
proof -
  have "fst (sync_file example_platform (example_handler False) [''src'', ''gone.txt'']
          (world_of [([''src''], Dir), ([''dst''], Dir)])) = Inl FileNotFoundError"
    by code_simp
  then show ?thesis
    using is_syncing_reset_on_exit [of example_platform "example_handler False" "[''src'', ''gone.txt'']"
        "world_of [([''src''], Dir), ([''dst''], Dir)]"]
    by simp
qed

subsection \<open>C7: keep the newest\<close>






subsection \<open>C3: a second call\<close>




subsection \<open>C2: keep both\<close>




end
